theory Spec2Isabelle
  imports Complex_Main "HOL-Library.Word" "HOL-Library.AList"
begin

section \<open>Exceptions and small helpers of the interpreter\<close>

text \<open>
  Every exception the modelled functions can raise is a value; a function that can raise
  returns \<open>py_error + 'a\<close> with \<open>Inl\<close> for the exception. Only \<open>ValueError\<close> carries its
  message, since the frame decoder and the size guard are told apart by message alone.
\<close>

datatype py_error =
    ValueError string
  | KeyError
  | TypeError
  | AttributeError
  | OverflowError
  | IndexError
  | OSError

text \<open>Decimal rendering of an integer, as an f-string does it.\<close>

definition digit_char :: "nat \<Rightarrow> char" where
  "digit_char d = ''0123456789'' ! d"

fun str_nat :: "nat \<Rightarrow> string" where
  "str_nat n = (if n < 10 then [digit_char n] else str_nat (n div 10) @ [digit_char (n mod 10)])"

declare str_nat.simps [simp del]

definition str_int :: "int \<Rightarrow> string" where
  "str_int i = (if i < 0 then CHR ''-'' # str_nat (nat (- i)) else str_nat (nat i))"

section \<open>app/config.py\<close>

record settings =
  CONFIDENCE_THRESHOLD :: real
  MAX_FRAME_SIZE :: int

definition default_settings :: settings where
  "default_settings = \<lparr>CONFIDENCE_THRESHOLD = 3 / 10, MAX_FRAME_SIZE = 512 * 512\<rparr>"

section \<open>The imaging and base64 libraries\<close>

text \<open>
  An image as the imaging library holds it: its mode string, its size, and one plane of
  8-bit samples per band (\<open>planes image ! b\<close> at column \<open>x\<close>, row \<open>y\<close>). Opening an image
  only reads its header; the pixel data are loaded on first use, and \<open>truncated\<close> says
  that this load fails.
\<close>

type_synonym plane = "nat \<Rightarrow> nat \<Rightarrow> 8 word"

record image =
  mode :: string
  width :: nat
  height :: nat
  truncated :: bool
  planes :: "plane list"

datatype resampling = NEAREST | BOX | BILINEAR | HAMMING | BICUBIC | LANCZOS

text \<open>
  What the repository does not contain is a parameter: the base64 decoder and the image
  codec (\<open>None\<close> when they raise), the luminance rule of the grayscale conversion and the
  resampling kernels, each producing 8-bit samples as the library's mode \<open>L\<close> stores them.
\<close>

record libs =
  b64decode :: "string \<Rightarrow> 8 word list option"
  image_open :: "8 word list \<Rightarrow> image option"
  luminance :: "image \<Rightarrow> plane"
  resample :: "resampling \<Rightarrow> nat \<times> nat \<Rightarrow> plane \<Rightarrow> nat \<times> nat \<Rightarrow> plane"

text \<open>\<^verbatim>\<open>image.convert('L')\<close>: loads the data, then a one-band image of the same size.\<close>

definition convert_L :: "libs \<Rightarrow> image \<Rightarrow> py_error + image" where
  "convert_L L img =
     (if truncated img then Inl OSError
      else Inr (img\<lparr>mode := ''L'', planes := [luminance L img]\<rparr>))"

text \<open>\<^verbatim>\<open>image.resize(size, filter)\<close>: loads the data, then resamples every band to \<open>size\<close>.\<close>

definition resize :: "libs \<Rightarrow> image \<Rightarrow> nat \<times> nat \<Rightarrow> resampling \<Rightarrow> py_error + image" where
  "resize L img sz flt =
     (if truncated img then Inl OSError
      else Inr (img\<lparr>width := fst sz, height := snd sz,
                 planes := map (\<lambda>p. resample L flt (width img, height img) p sz) (planes img)\<rparr>))"

section \<open>Arrays and tensors\<close>

text \<open>
  An n-dimensional array is a nesting of lists. The 32-bit floats of the image tensor
  are written as the reals they stand for: each is a byte divided by 255, and rounding
  such a quotient to 32 bits keeps it between 0 and 1.
\<close>

datatype ndarray = Scalar real | Array "ndarray list"

fun has_shape :: "ndarray \<Rightarrow> nat list \<Rightarrow> bool" where
  "has_shape (Scalar v) ds = (ds = [])"
| "has_shape (Array xs) [] = False"
| "has_shape (Array xs) (d # ds) = (length xs = d \<and> list_all (\<lambda>x. has_shape x ds) xs)"

fun elements :: "ndarray \<Rightarrow> real list" where
  "elements (Scalar v) = [v]"
| "elements (Array xs) = concat (map elements xs)"

fun true_divide :: "ndarray \<Rightarrow> real \<Rightarrow> ndarray" where
  "true_divide (Scalar v) d = Scalar (v / d)"
| "true_divide (Array xs) d = Array (map (\<lambda>x. true_divide x d) xs)"

definition unsqueeze0 :: "ndarray \<Rightarrow> ndarray" where
  "unsqueeze0 t = Array [t]"

text \<open>
  \<^verbatim>\<open>np.array(image, dtype=np.float32)\<close>: rows by columns, and a third axis of bands unless
  the image has exactly one band.
\<close>

definition pixel_entry :: "plane list \<Rightarrow> nat \<Rightarrow> nat \<Rightarrow> ndarray" where
  "pixel_entry ps x y =
     (case ps of
        [p] \<Rightarrow> Scalar (real (unat (p x y)))
      | _ \<Rightarrow> Array (map (\<lambda>p. Scalar (real (unat (p x y)))) ps))"

definition asarray :: "image \<Rightarrow> ndarray" where
  "asarray img =
     Array (map (\<lambda>y. Array (map (\<lambda>x. pixel_entry (planes img) x y) [0..<width img]))
                [0..<height img])"

section \<open>app/services/preprocessing.py\<close>

definition TARGET_SIZE :: "nat \<times> nat" where
  "TARGET_SIZE = (48, 48)"

definition EMOTIONS :: "string list" where
  "EMOTIONS = [''Angry'', ''Disgust'', ''Fear'', ''Happy'', ''Neutral'', ''Sad'', ''Surprise'']"

text \<open>Any exception of the two library calls is caught and replaced by one \<open>ValueError\<close>.\<close>

definition decode_base64_frame :: "libs \<Rightarrow> string \<Rightarrow> py_error + image" where
  "decode_base64_frame L frame_base64 =
     (case b64decode L frame_base64 of
        None \<Rightarrow> Inl (ValueError ''Invalid base64 image format'')
      | Some image_data \<Rightarrow>
          (case image_open L image_data of
             None \<Rightarrow> Inl (ValueError ''Invalid base64 image format'')
           | Some img \<Rightarrow> Inr img))"

definition validate_image_size :: "settings \<Rightarrow> image \<Rightarrow> py_error + bool" where
  "validate_image_size S img =
     (let pixels = int (width img * height img) in
      if pixels > MAX_FRAME_SIZE S
      then Inl (ValueError (''Image too large: '' @ str_int pixels @ '' pixels > ''
                            @ str_int (MAX_FRAME_SIZE S) @ '' max''))
      else Inr True)"

text \<open>The handler of \<^verbatim>\<open>preprocess_frame\<close> logs and re-raises, so every error propagates.\<close>

definition preprocess_frame :: "libs \<Rightarrow> settings \<Rightarrow> string \<Rightarrow> py_error + ndarray" where
  "preprocess_frame L S frame_base64 =
     (case decode_base64_frame L frame_base64 of
        Inl e \<Rightarrow> Inl e
      | Inr img \<Rightarrow>
     (case validate_image_size S img of
        Inl e \<Rightarrow> Inl e
      | Inr _ \<Rightarrow>
     (case (if mode img \<noteq> ''L'' then convert_L L img else Inr img) of
        Inl e \<Rightarrow> Inl e
      | Inr gray \<Rightarrow>
     (case resize L gray TARGET_SIZE LANCZOS of
        Inl e \<Rightarrow> Inl e
      | Inr resized \<Rightarrow>
          (let img_array = true_divide (asarray resized) 255;
               img_tensor = unsqueeze0 (unsqueeze0 img_array)
           in Inr img_tensor)))))"

section \<open>Floating-point values and the tensor library\<close>

text \<open>
  A 32-bit float is a finite value, given by the real number it stands for, or one of
  the three special values. Comparison is the IEEE one: nothing is less than \<open>NaN\<close> and
  \<open>NaN\<close> is less than nothing.
\<close>

datatype f32 = Finite real | PosInf | NegInf | NaN



definition fless :: "f32 \<Rightarrow> f32 \<Rightarrow> bool" where
  "fless a b =
     (case (a, b) of
        (Finite x, Finite y) \<Rightarrow> x < y
      | (Finite x, PosInf) \<Rightarrow> True
      | (NegInf, Finite y) \<Rightarrow> True
      | (NegInf, PosInf) \<Rightarrow> True
      | _ \<Rightarrow> False)"

text \<open>
  The softmax of the tensor library on a row whose maximum is finite is a parameter: the
  library's rounded arithmetic decides its values, and they are finite.
\<close>

record torch =
  softmax_kernel :: "f32 list \<Rightarrow> real list"

text \<open>
  The softmax of the mathematics, which the library approximates; an entry of minus
  infinity has weight 0.
\<close>

definition exact_softmax :: "f32 list \<Rightarrow> real list" where
  "exact_softmax xs =
     (let es = map (\<lambda>x. case x of Finite v \<Rightarrow> exp v | _ \<Rightarrow> 0) xs;
          s = sum_list es
      in map (\<lambda>e. e / s) es)"


text \<open>
  \<^verbatim>\<open>torch.nn.functional.softmax\<close> along a row, in its stable form: the maximum is
  subtracted before exponentiation. When an entry is \<open>NaN\<close> or plus infinity, or every
  entry is minus infinity, a subtraction yields \<open>NaN\<close>, the sum is \<open>NaN\<close> and so is every
  result. An empty row stays empty.
\<close>

definition softmax :: "torch \<Rightarrow> f32 list \<Rightarrow> f32 list" where
  "softmax T xs =
     (if xs = [] then []
      else if list_ex (\<lambda>x. x = NaN \<or> x = PosInf) xs \<or> list_all (\<lambda>x. x = NegInf) xs
      then map (\<lambda>x. NaN) xs
      else map Finite (softmax_kernel T xs))"

text \<open>
  \<^verbatim>\<open>torch.max(t, dim=0)\<close> on a vector: the maximal value and the index of its first
  occurrence. The scan keeps the best pair so far and replaces it only by a strictly
  larger entry, or by the first \<open>NaN\<close>, which then stays. An empty vector has no maximum.
\<close>

definition replaces :: "f32 \<Rightarrow> f32 \<Rightarrow> bool" where
  "replaces x best = (best \<noteq> NaN \<and> (x = NaN \<or> fless best x))"

fun max_scan :: "f32 \<times> nat \<Rightarrow> nat \<Rightarrow> f32 list \<Rightarrow> f32 \<times> nat" where
  "max_scan best i [] = best"
| "max_scan best i (x # xs) =
     max_scan (if replaces x (fst best) then (x, i) else best) (Suc i) xs"

definition torch_max :: "f32 list \<Rightarrow> py_error + f32 \<times> nat" where
  "torch_max xs = (case xs of [] \<Rightarrow> Inl IndexError | x # rest \<Rightarrow> Inr (max_scan (x, 0) 1 rest))"

section \<open>app/services/preprocessing.py: the postprocessor\<close>

record prediction =
  emotion :: string
  confidence :: f32
  all_emotions :: "(string \<times> f32) list"

definition postprocess_predictions :: "torch \<Rightarrow> f32 list list \<Rightarrow> py_error + prediction" where
  "postprocess_predictions T logits =
     (case map (softmax T) logits of
        [] \<Rightarrow> Inl IndexError
      | probabilities # _ \<Rightarrow>
          (case torch_max probabilities of
             Inl e \<Rightarrow> Inl e
           | Inr (confidence_score, emotion_idx) \<Rightarrow>
               if length EMOTIONS \<le> emotion_idx then Inl IndexError
               else if length probabilities < length EMOTIONS then Inl IndexError
               else Inr \<lparr>emotion = EMOTIONS ! emotion_idx,
                         confidence = confidence_score,
                         all_emotions = map (\<lambda>i. (EMOTIONS ! i, probabilities ! i))
                                            [0..<length EMOTIONS]\<rparr>))"


section \<open>Values, dictionaries and time\<close>

text \<open>
  The values a prediction dictionary can hold (what a JSON document can). Numbers are
  identified by their value, as dictionary keys and arithmetic identify them. A
  dictionary is the list of its items in insertion order, with distinct keys.
\<close>

datatype pyval =
    PNone
  | PNum real
  | PStr string
  | PList "pyval list"
  | PDict "(string \<times> pyval) list"

type_synonym pydict = "(string \<times> pyval) list"

definition dict_get :: "('k \<times> 'v) list \<Rightarrow> 'k \<Rightarrow> 'v \<Rightarrow> 'v" where
  "dict_get d k dflt = (case map_of d k of None \<Rightarrow> dflt | Some v \<Rightarrow> v)"

fun hashable :: "pyval \<Rightarrow> bool" where
  "hashable (PList _) = False"
| "hashable (PDict _) = False"
| "hashable _ = True"

text \<open>\<^verbatim>\<open>xs[start:]\<close> for an integer \<open>start\<close>; a negative one counts from the end.\<close>

definition slice_from :: "'a list \<Rightarrow> int \<Rightarrow> 'a list" where
  "slice_from xs start =
     (if start < 0 then drop (nat (int (length xs) + start)) xs else drop (nat start) xs)"

text \<open>\<^verbatim>\<open>s.replace("Z", "+00:00")\<close>\<close>

fun replace_Z :: "string \<Rightarrow> string" where
  "replace_Z [] = []"
| "replace_Z (c # cs) = (if c = CHR ''Z'' then ''+00:00'' @ replace_Z cs else c # replace_Z cs)"

text \<open>
  A datetime is its count of microseconds since 0001-01-01T00:00:00, naive (no time zone)
  or aware (with the offset of its zone). An ordering comparison between a naive and an
  aware one raises \<open>TypeError\<close>. A \<open>timedelta\<close> is a count of microseconds; both types are
  bounded and arithmetic leaving the bounds raises \<open>OverflowError\<close>.
\<close>

datatype datetime = Naive int | Aware int int

definition timedelta_hours :: "int \<Rightarrow> py_error + int" where
  "timedelta_hours hours =
     (let us = hours * 3600000000 in
      if - 999999999 * 86400000000 \<le> us \<and> us < 1000000000 * 86400000000
      then Inr us else Inl OverflowError)"

definition datetime_sub :: "int \<Rightarrow> int \<Rightarrow> py_error + int" where
  "datetime_sub t delta =
     (let r = t - delta in
      if 0 \<le> r \<and> r < 3652059 * 86400000000 then Inr r else Inl OverflowError)"

fun datetime_gt :: "datetime \<Rightarrow> int \<Rightarrow> py_error + bool" where
  "datetime_gt (Naive t) cutoff = Inr (cutoff < t)"
| "datetime_gt (Aware t off) cutoff = Inl TypeError"

text \<open>
  The interpreter's ISO-8601 parser and printer are parameters: \<open>fromisoformat\<close> returns
  \<open>None\<close> where the parser raises \<open>ValueError\<close>.
\<close>

record pyenv =
  fromisoformat :: "string \<Rightarrow> datetime option"
  isoformat :: "int \<Rightarrow> string"

section \<open>app/services/storage.py\<close>

record stats =
  user_id :: string
  total :: nat
  emotion_counts :: "(pyval \<times> nat) list"
  dominant_emotion :: "pyval option"
  average_confidence :: real
  by_emotion :: "(pyval \<times> nat) list option"

text \<open>The two module-level dictionaries.\<close>

record state =
  predictions_store :: "string \<Rightarrow> pydict list option"
  stats_cache :: "string \<Rightarrow> stats option"

text \<open>
  \<^verbatim>\<open>{**prediction, "stored_at": datetime.utcnow().isoformat() + "Z"}\<close>: the key is
  overwritten in place when the prediction has it, and added last otherwise.
\<close>

definition with_stored_at :: "pyenv \<Rightarrow> int \<Rightarrow> pydict \<Rightarrow> pydict" where
  "with_stored_at E now prediction =
     AList.update ''stored_at'' (PStr (isoformat E now @ ''Z'')) prediction"

text \<open>\<open>now\<close> is the reading of the clock during the call.\<close>

definition store_prediction :: "pyenv \<Rightarrow> state \<Rightarrow> string \<Rightarrow> pydict \<Rightarrow> int \<Rightarrow> state" where
  "store_prediction E st uid prediction now =
     (let old = (case predictions_store st uid of None \<Rightarrow> [] | Some ps \<Rightarrow> ps);
          appended = old @ [with_stored_at E now prediction];
          kept = (if 1000 < length appended then slice_from appended (- 1000) else appended)
      in st\<lparr>predictions_store := (predictions_store st)(uid \<mapsto> kept)\<rparr>)"

text \<open>A sequence of calls, each with its user, its prediction and its clock reading.\<close>

fun store_all :: "pyenv \<Rightarrow> state \<Rightarrow> (string \<times> pydict \<times> int) list \<Rightarrow> state" where
  "store_all E st [] = st"
| "store_all E st ((uid, prediction, now) # calls) =
     store_all E (store_prediction E st uid prediction now) calls"

text \<open>
  \<^verbatim>\<open>datetime.fromisoformat(p["timestamp"].replace("Z", "+00:00"))\<close>: a missing key raises
  \<open>KeyError\<close>, a value that is no string has no \<open>replace\<close>, a string the parser rejects
  raises \<open>ValueError\<close>.
\<close>

definition entry_timestamp :: "pyenv \<Rightarrow> pydict \<Rightarrow> py_error + datetime" where
  "entry_timestamp E p =
     (case map_of p ''timestamp'' of
        None \<Rightarrow> Inl KeyError
      | Some (PStr s) \<Rightarrow>
          (case fromisoformat E (replace_Z s) of
             None \<Rightarrow> Inl (ValueError ''Invalid isoformat string'')
           | Some ts \<Rightarrow> Inr ts)
      | Some _ \<Rightarrow> Inl AttributeError)"

definition in_window :: "pyenv \<Rightarrow> int \<Rightarrow> pydict \<Rightarrow> py_error + bool" where
  "in_window E cutoff_time p =
     (case entry_timestamp E p of Inl e \<Rightarrow> Inl e | Inr ts \<Rightarrow> datetime_gt ts cutoff_time)"

text \<open>
  An entry without the \<^verbatim>\<open>"timestamp"\<close> key, or whose timestamp is a string that the ISO
  parser rejects.
\<close>

definition unusable_timestamp :: "pyenv \<Rightarrow> pydict \<Rightarrow> bool" where
  "unusable_timestamp E p =
     (case map_of p ''timestamp'' of
        None \<Rightarrow> True
      | Some (PStr s) \<Rightarrow> fromisoformat E (replace_Z s) = None
      | Some _ \<Rightarrow> False)"

text \<open>An entry whose \<^verbatim>\<open>"timestamp"\<close> is present and is no string (a number, null, a list).\<close>

definition non_string_timestamp :: "pydict \<Rightarrow> bool" where
  "non_string_timestamp p =
     (case map_of p ''timestamp'' of
        None \<Rightarrow> False
      | Some (PStr s) \<Rightarrow> False
      | Some _ \<Rightarrow> True)"

text \<open>The inner handler, \<^verbatim>\<open>except (ValueError, KeyError): continue\<close>.\<close>

fun skipped :: "py_error \<Rightarrow> bool" where
  "skipped (ValueError _) = True"
| "skipped KeyError = True"
| "skipped _ = False"

fun filter_loop :: "pyenv \<Rightarrow> int \<Rightarrow> pydict list \<Rightarrow> pydict list \<Rightarrow> py_error + pydict list" where
  "filter_loop E cutoff_time filtered [] = Inr filtered"
| "filter_loop E cutoff_time filtered (p # ps) =
     (case in_window E cutoff_time p of
        Inl e \<Rightarrow> if skipped e then filter_loop E cutoff_time filtered ps else Inl e
      | Inr newer \<Rightarrow>
          filter_loop E cutoff_time (if newer then filtered @ [p] else filtered) ps)"

text \<open>The body of \<^verbatim>\<open>get_predictions\<close> inside its outer \<^verbatim>\<open>try\<close>.\<close>

definition get_predictions_body ::
  "pyenv \<Rightarrow> state \<Rightarrow> string \<Rightarrow> int \<Rightarrow> int \<Rightarrow> int \<Rightarrow> py_error + pydict list" where
  "get_predictions_body E st uid limit hours now =
     (case predictions_store st uid of
        None \<Rightarrow> Inr []
      | Some predictions \<Rightarrow>
          (case timedelta_hours hours of
             Inl e \<Rightarrow> Inl e
           | Inr delta \<Rightarrow>
          (case datetime_sub now delta of
             Inl e \<Rightarrow> Inl e
           | Inr cutoff_time \<Rightarrow>
          (case filter_loop E cutoff_time [] predictions of
             Inl e \<Rightarrow> Inl e
           | Inr filtered \<Rightarrow> Inr (slice_from filtered (- limit))))))"

text \<open>The outer handler, \<^verbatim>\<open>except Exception: return []\<close>.\<close>

definition get_predictions :: "pyenv \<Rightarrow> state \<Rightarrow> string \<Rightarrow> int \<Rightarrow> int \<Rightarrow> int \<Rightarrow> pydict list" where
  "get_predictions E st uid limit hours now =
     (case get_predictions_body E st uid limit hours now of
        Inl e \<Rightarrow> []
      | Inr result \<Rightarrow> result)"

text \<open>
  The counting loop of \<^verbatim>\<open>get_emotion_stats\<close>. A label that cannot be hashed and a
  confidence that is no number raise \<open>TypeError\<close>.
\<close>

definition emotion_of :: "pydict \<Rightarrow> pyval" where
  "emotion_of p = dict_get p ''emotion'' (PStr ''Unknown'')"

definition count_label :: "(pyval \<times> nat) list \<Rightarrow> pyval \<Rightarrow> (pyval \<times> nat) list" where
  "count_label counts label = AList.update label (dict_get counts label 0 + 1) counts"

fun count_loop ::
  "(pyval \<times> nat) list \<Rightarrow> real \<Rightarrow> pydict list \<Rightarrow> py_error + (pyval \<times> nat) list \<times> real" where
  "count_loop counts total_confidence [] = Inr (counts, total_confidence)"
| "count_loop counts total_confidence (p # ps) =
     (if \<not> hashable (emotion_of p) then Inl TypeError
      else
        (case dict_get p ''confidence'' (PNum 0) of
           PNum c \<Rightarrow> count_loop (count_label counts (emotion_of p)) (total_confidence + c) ps
         | _ \<Rightarrow> Inl TypeError))"

text \<open>
  \<^verbatim>\<open>max(items, key=lambda x: x[1])\<close>: the first item whose count no other item exceeds.
\<close>

fun max_by_count :: "'k \<times> nat \<Rightarrow> ('k \<times> nat) list \<Rightarrow> 'k \<times> nat" where
  "max_by_count best [] = best"
| "max_by_count best (x # xs) = max_by_count (if snd best < snd x then x else best) xs"

text \<open>\<^verbatim>\<open>round(x, 4)\<close>, to the nearest multiple of \<open>1/10000\<close>, ties to the even one.\<close>

definition round_half_even :: "real \<Rightarrow> int" where
  "round_half_even x =
     (let f = \<lfloor>x\<rfloor>; r = x - of_int f in
      if r < 1 / 2 then f else if 1 / 2 < r then f + 1 else if even f then f else f + 1)"

definition round4 :: "real \<Rightarrow> real" where
  "round4 x = of_int (round_half_even (x * 10000)) / 10000"

definition zero_stats :: "string \<Rightarrow> stats" where
  "zero_stats uid =
     \<lparr>user_id = uid, total = 0, emotion_counts = [], dominant_emotion = None,
      average_confidence = 0, by_emotion = None\<rparr>"

text \<open>The statistics of a non-empty query result, before the outer handler.\<close>

definition compute_stats :: "string \<Rightarrow> pydict list \<Rightarrow> py_error + stats" where
  "compute_stats uid predictions =
     (case count_loop [] 0 predictions of
        Inl e \<Rightarrow> Inl e
      | Inr (counts, total_confidence) \<Rightarrow>
          (let n = length predictions;
               avg_confidence = (if 0 < n then total_confidence / real n else 0);
               dominant = (case counts of
                             [] \<Rightarrow> None
                           | item # items \<Rightarrow> Some (fst (max_by_count item items)))
           in Inr \<lparr>user_id = uid, total = n, emotion_counts = counts,
                    dominant_emotion = dominant,
                    average_confidence = round4 avg_confidence,
                    by_emotion = Some (sort_key (\<lambda>item. - int (snd item)) counts)\<rparr>))"

text \<open>
  \<^verbatim>\<open>get_emotion_stats\<close> returns the statistics and, on the path that computes them,
  writes them to the cache. Its handler turns any exception into the zeroed statistics.
\<close>

definition get_emotion_stats :: "pyenv \<Rightarrow> state \<Rightarrow> string \<Rightarrow> int \<Rightarrow> int \<Rightarrow> stats \<times> state" where
  "get_emotion_stats E st uid hours now =
     (let predictions = get_predictions E st uid 10000 hours now in
      if predictions = [] then (zero_stats uid, st)
      else
        (case compute_stats uid predictions of
           Inl e \<Rightarrow> (zero_stats uid, st)
         | Inr s \<Rightarrow> (s, st\<lparr>stats_cache := (stats_cache st)(uid \<mapsto> s)\<rparr>)))"

section \<open>Concrete library outcomes for running the model\<close>

text \<open>
  To run the model on concrete inputs the library parameters are instantiated with what
  the libraries return on a few inputs: four binary PGM/PPM files in base64 (a 1x1 gray
  pixel of value 128, two header-only files of 5x52429 and 512x512 pixels whose data are
  missing, a 2x1 RGB image), three bytes that are no image, and a string that is not
  base64. The luminance of an RGB pixel is the library's ITU-R 601-2 rule; the resampling
  stand-in picks the nearest source sample for every filter.
\<close>

definition demo_b64decode :: "string \<Rightarrow> 8 word list option" where
  "demo_b64decode s =
     (if s = ''UDUKMSAxCjI1NQqA'' then Some [80, 53, 10, 49, 32, 49, 10, 50, 53, 53, 10, 128]
      else if s = ''UDUKNSA1MjQyOQoyNTUK''
        then Some [80, 53, 10, 53, 32, 53, 50, 52, 50, 57, 10, 50, 53, 53, 10]
      else if s = ''UDUKNTEyIDUxMgoyNTUK''
        then Some [80, 53, 10, 53, 49, 50, 32, 53, 49, 50, 10, 50, 53, 53, 10]
      else if s = ''UDYKMiAxCjI1NQr/AAAAAP8=''
        then Some [80, 54, 10, 50, 32, 49, 10, 50, 53, 53, 10, 255, 0, 0, 0, 0, 255]
      else if s = ''AAAA'' then Some [0, 0, 0]
      else None)"

definition demo_image_open :: "8 word list \<Rightarrow> image option" where
  "demo_image_open bs =
     (if bs = [80, 53, 10, 49, 32, 49, 10, 50, 53, 53, 10, 128]
        then Some \<lparr>mode = ''L'', width = 1, height = 1, truncated = False,
                   planes = [\<lambda>x y. 128]\<rparr>
      else if bs = [80, 53, 10, 53, 32, 53, 50, 52, 50, 57, 10, 50, 53, 53, 10]
        then Some \<lparr>mode = ''L'', width = 5, height = 52429, truncated = True,
                   planes = [\<lambda>x y. 0]\<rparr>
      else if bs = [80, 53, 10, 53, 49, 50, 32, 53, 49, 50, 10, 50, 53, 53, 10]
        then Some \<lparr>mode = ''L'', width = 512, height = 512, truncated = True,
                   planes = [\<lambda>x y. 0]\<rparr>
      else if bs = [80, 54, 10, 50, 32, 49, 10, 50, 53, 53, 10, 255, 0, 0, 0, 0, 255]
        then Some \<lparr>mode = ''RGB'', width = 2, height = 1, truncated = False,
                   planes = [\<lambda>x y. if x = 0 then 255 else 0, \<lambda>x y. 0,
                             \<lambda>x y. if x = 0 then 0 else 255]\<rparr>
      else None)"

definition demo_luminance :: "image \<Rightarrow> plane" where
  "demo_luminance img x y =
     (case planes img of
        [r, g, b] \<Rightarrow>
          of_nat ((unat (r x y) * 19595 + unat (g x y) * 38470 + unat (b x y) * 7471 + 32768)
                  div 65536)
      | p # _ \<Rightarrow> p x y
      | [] \<Rightarrow> 0)"

definition demo_resample :: "resampling \<Rightarrow> nat \<times> nat \<Rightarrow> plane \<Rightarrow> nat \<times> nat \<Rightarrow> plane" where
  "demo_resample flt src p dst x y =
     p (((2 * x + 1) * fst src) div (2 * fst dst)) (((2 * y + 1) * snd src) div (2 * snd dst))"

definition demo_libs :: libs where
  "demo_libs = \<lparr>b64decode = demo_b64decode, image_open = demo_image_open,
                 luminance = demo_luminance, resample = demo_resample\<rparr>"

text \<open>
  Likewise for time: instants of 2025-10-18 (day 739542 of the calendar), and the
  parser's results on the strings used below.
\<close>

definition demo_time :: "int \<Rightarrow> int \<Rightarrow> int \<Rightarrow> int" where
  "demo_time h m s = ((739541 * 86400) + h * 3600 + m * 60 + s) * 1000000"

definition demo_fromisoformat :: "string \<Rightarrow> datetime option" where
  "demo_fromisoformat s =
     (if s = ''2025-10-18T12:34:56+00:00'' then Some (Aware (demo_time 12 34 56) 0)
      else if s = ''2025-10-18T12:34:56'' then Some (Naive (demo_time 12 34 56))
      else if s = ''2025-10-18T12:34:50'' then Some (Naive (demo_time 12 34 50))
      else None)"

definition demo_isoformat :: "int \<Rightarrow> string" where
  "demo_isoformat t =
     (if t = demo_time 12 35 0 then ''2025-10-18T12:35:00'' else ''2025-10-18T12:35:01'')"

definition demo_env :: pyenv where
  "demo_env = \<lparr>fromisoformat = demo_fromisoformat, isoformat = demo_isoformat\<rparr>"

definition empty_state :: state where
  "empty_state = \<lparr>predictions_store = Map.empty, stats_cache = Map.empty\<rparr>"

definition demo_entry :: "string \<Rightarrow> string \<Rightarrow> pydict" where
  "demo_entry label ts =
     [(''emotion'', PStr label), (''confidence'', PNum (9 / 10)), (''timestamp'', PStr ts)]"

text \<open>
  A tensor library whose softmax is the exact one: an idealisation for running the model,
  since the library itself rounds.
\<close>

definition ideal_torch :: torch where
  "ideal_torch = \<lparr>softmax_kernel = exact_softmax\<rparr>"

section \<open>The normalisation pipeline as the specification words it\<close>

text \<open>
  The four steps of the specification's \<open>normalize\<close>, each a function of its own, to be
  compared with what \<open>preprocess_frame\<close> does after its guard: grayscale if not already,
  resize to exactly 48x48 with the Lanczos filter, divide by 255, reshape to
  (1, 1, 48, 48). A reshape of an array of another size raises.
\<close>

definition spec_to_grayscale :: "libs \<Rightarrow> image \<Rightarrow> py_error + image" where
  "spec_to_grayscale L img = (if mode img = ''L'' then Inr img else convert_L L img)"

definition spec_resize :: "libs \<Rightarrow> image \<Rightarrow> py_error + image" where
  "spec_resize L img = resize L img (48, 48) LANCZOS"

definition spec_rescale :: "image \<Rightarrow> ndarray" where
  "spec_rescale img = true_divide (asarray img) 255"

definition spec_reshape :: "ndarray \<Rightarrow> py_error + ndarray" where
  "spec_reshape a =
     (if has_shape a [48, 48] then Inr (Array [Array [a]])
      else Inl (ValueError ''cannot reshape array into shape (1,1,48,48)''))"

definition spec_normalize :: "libs \<Rightarrow> image \<Rightarrow> py_error + ndarray" where
  "spec_normalize L img =
     (case spec_to_grayscale L img of
        Inl e \<Rightarrow> Inl e
      | Inr gray \<Rightarrow>
          (case spec_resize L gray of
             Inl e \<Rightarrow> Inl e
           | Inr resized \<Rightarrow> spec_reshape (spec_rescale resized)))"

text \<open>A history with a tie: two entries each for two labels.\<close>

definition demo_history :: state where
  "demo_history =
     \<lparr>predictions_store = [''user_1'' \<mapsto>
        [demo_entry ''Sad'' ''2025-10-18T12:34:50'', demo_entry ''Happy'' ''2025-10-18T12:34:56'',
         demo_entry ''Happy'' ''2025-10-18T12:34:50'', demo_entry ''Sad'' ''2025-10-18T12:34:56'']],
      stats_cache = Map.empty\<rparr>"

section \<open>The size guard\<close>

lemma str_nat_262145: "str_nat 262145 = ''262145''"
  by (simp add: str_nat.simps digit_char_def)

lemma str_nat_262144: "str_nat 262144 = ''262144''"
  by (simp add: str_nat.simps digit_char_def)

lemma demo_decode_5x52429:
  "decode_base64_frame demo_libs ''UDUKNSA1MjQyOQoyNTUK'' =
     Inr \<lparr>mode = ''L'', width = 5, height = 52429, truncated = True, planes = [\<lambda>x y. 0]\<rparr>"
  by (simp add: decode_base64_frame_def demo_libs_def demo_b64decode_def demo_image_open_def)

text \<open>
  C4. The default cap is 262144 pixels. \<open>validate_image_size\<close> succeeds exactly when
  width times height is at most the configured cap and raises its "Image too large"
  error exactly when the product is strictly greater. In \<open>preprocess_frame\<close> a decoded
  image over the cap yields that same error whatever the grayscale conversion and the
  resize would do (they are arbitrary here, and the image may even fail to load): the
  guard is decided before either is reached.
\<close>

theorem validate_image_size_guard:
  "MAX_FRAME_SIZE default_settings = 262144
   \<and> (validate_image_size S img = Inr True \<longleftrightarrow> int (width img * height img) \<le> MAX_FRAME_SIZE S)
   \<and> (MAX_FRAME_SIZE S < int (width img * height img) \<longrightarrow>
        validate_image_size S img =
          Inl (ValueError (''Image too large: '' @ str_int (int (width img * height img))
                           @ '' pixels > '' @ str_int (MAX_FRAME_SIZE S) @ '' max''))
        \<and> (decode_base64_frame L frame = Inr img \<longrightarrow>
             preprocess_frame L S frame =
               Inl (ValueError (''Image too large: '' @ str_int (int (width img * height img))
                                @ '' pixels > '' @ str_int (MAX_FRAME_SIZE S) @ '' max''))))"
  by (simp add: default_settings_def validate_image_size_def preprocess_frame_def Let_def)

text \<open>
  A header-only 5x52429 image (262145 pixels, data missing) is rejected by the guard, and
  a 512x512 one (262144 pixels) passes it.
\<close>

theorem validate_image_size_guard_witness:
  "preprocess_frame demo_libs default_settings ''UDUKNSA1MjQyOQoyNTUK'' =
     Inl (ValueError ''Image too large: 262145 pixels > 262144 max'')
   \<and> validate_image_size default_settings
        \<lparr>mode = ''L'', width = 512, height = 512, truncated = True, planes = [\<lambda>x y. 0]\<rparr> = Inr True"
  using validate_image_size_guard [of default_settings
      "\<lparr>mode = ''L'', width = 5, height = 52429, truncated = True, planes = [\<lambda>x y. 0]\<rparr>"
      demo_libs "''UDUKNSA1MjQyOQoyNTUK''"]
    validate_image_size_guard [of default_settings
      "\<lparr>mode = ''L'', width = 512, height = 512, truncated = True, planes = [\<lambda>x y. 0]\<rparr>"
      demo_libs "''UDUKNTEyIDUxMgoyNTUK''"]
  by (simp add: demo_decode_5x52429 default_settings_def str_int_def str_nat_262145 str_nat_262144)

section \<open>The frame decoder and the normaliser\<close>

lemma has_shape_true_divide: "has_shape (true_divide a d) ds = has_shape a ds"
proof (induction a d arbitrary: ds rule: true_divide.induct)
  case (1 v d)
  show ?case by simp
next
  case (2 xs d)
  then show ?case by (cases ds) (auto simp: list_all_iff)
qed

lemma elements_true_divide: "elements (true_divide a d) = map (\<lambda>v. v / d) (elements a)"
  by (induction a d rule: true_divide.induct) (auto simp: map_concat comp_def cong: map_cong)

lemma has_shape_asarray:
  "length (planes img) = 1 \<Longrightarrow> has_shape (asarray img) [height img, width img]"
  by (cases "planes img") (auto simp: asarray_def pixel_entry_def list_all_iff split: list.splits)

lemma elements_asarray_range:
  "v \<in> set (elements (asarray img)) \<Longrightarrow> 0 \<le> v \<and> v \<le> 255"
proof -
  have byte: "0 \<le> real (unat w) \<and> real (unat w) \<le> 255" for w :: "8 word"
  proof -
    have "unat w < 256"
      using unsigned_less [of w, where ?'a = nat] by simp
    then have "real (unat w) \<le> real 255"
      by (simp only: of_nat_le_iff)
    moreover have "0 \<le> real (unat w)"
      by (simp only: of_nat_0_le_iff)
    ultimately show ?thesis by simp
  qed
  have entry: "u \<in> set (elements (pixel_entry ps x y)) \<Longrightarrow> 0 \<le> u \<and> u \<le> 255" for u ps x y
    using byte by (auto simp: pixel_entry_def split: list.splits)
  assume "v \<in> set (elements (asarray img))"
  then show ?thesis
    using entry by (fastforce simp: asarray_def)
qed

text \<open>
  C1. A frame that decodes to an image within the size cap, whose pixel data load and
  which is well formed (a mode \<open>L\<close> image has one band), is preprocessed without error
  into a tensor of shape (1, 1, 48, 48) all of whose values lie in [0, 1], whatever the
  size and mode of the image.
\<close>

theorem preprocess_frame_shape_range:
  assumes "decode_base64_frame L frame = Inr img"
    and "int (width img * height img) \<le> MAX_FRAME_SIZE S"
    and "\<not> truncated img"
    and "mode img = ''L'' \<longrightarrow> length (planes img) = 1"
  shows "\<exists>t. preprocess_frame L S frame = Inr t \<and> has_shape t [1, 1, 48, 48]
             \<and> (\<forall>v \<in> set (elements t). 0 \<le> v \<and> v \<le> 1)"
proof -
  define gray where "gray = (if mode img \<noteq> ''L'' then img\<lparr>mode := ''L'', planes := [luminance L img]\<rparr> else img)"
  define resized where "resized = gray\<lparr>width := 48, height := 48,
      planes := map (\<lambda>p. resample L LANCZOS (width gray, height gray) p (48, 48)) (planes gray)\<rparr>"
  define t where "t = unsqueeze0 (unsqueeze0 (true_divide (asarray resized) 255))"
  have one: "length (planes resized) = 1"
    using assms(4) by (simp add: resized_def gray_def)
  have run: "preprocess_frame L S frame = Inr t"
    using assms(1-3)
    by (simp add: preprocess_frame_def validate_image_size_def convert_L_def resize_def
        TARGET_SIZE_def Let_def t_def resized_def gray_def)
  have "has_shape (asarray resized) [48, 48]"
    using has_shape_asarray [OF one] by (simp add: resized_def)
  then have shape: "has_shape t [1, 1, 48, 48]"
    by (simp add: t_def unsqueeze0_def has_shape_true_divide)
  have range: "0 \<le> v \<and> v \<le> 1" if "v \<in> set (elements t)" for v
  proof -
    from that obtain u where "u \<in> set (elements (asarray resized))" and "v = u / 255"
      by (auto simp: t_def unsqueeze0_def elements_true_divide)
    then show ?thesis
      using elements_asarray_range [of u resized] by simp
  qed
  show ?thesis
    using run shape range by blast
qed

text \<open>
  C5. After decoding and the size guard, \<open>preprocess_frame\<close> is the specification's
  pipeline in its order: grayscale conversion unless the mode is already \<open>L\<close>, then the
  resize to 48x48 with the Lanczos filter, then the division by 255, then the reshape to
  (1, 1, 48, 48); a failure of a step is the failure of the whole.
\<close>

theorem preprocess_frame_equals_pipeline:
  assumes "decode_base64_frame L frame = Inr img"
    and "int (width img * height img) \<le> MAX_FRAME_SIZE S"
    and "mode img = ''L'' \<longrightarrow> length (planes img) = 1"
  shows "preprocess_frame L S frame = spec_normalize L img"
proof (cases "truncated img")
  case True
  then show ?thesis
    using assms(1,2)
    by (simp add: preprocess_frame_def validate_image_size_def spec_normalize_def
        spec_to_grayscale_def spec_resize_def convert_L_def resize_def TARGET_SIZE_def)
next
  case False
  define gray where "gray = (if mode img \<noteq> ''L'' then img\<lparr>mode := ''L'', planes := [luminance L img]\<rparr> else img)"
  define resized where "resized = gray\<lparr>width := 48, height := 48,
      planes := map (\<lambda>p. resample L LANCZOS (width gray, height gray) p (48, 48)) (planes gray)\<rparr>"
  have one: "length (planes resized) = 1"
    using assms(3) by (simp add: resized_def gray_def)
  have "has_shape (asarray resized) [48, 48]"
    using has_shape_asarray [OF one] by (simp add: resized_def)
  then have shape: "has_shape (true_divide (asarray resized) 255) [48, 48]"
    by (simp only: has_shape_true_divide)
  have code: "preprocess_frame L S frame = Inr (unsqueeze0 (unsqueeze0 (true_divide (asarray resized) 255)))"
    using assms(1,2) False
    by (simp add: preprocess_frame_def validate_image_size_def convert_L_def resize_def
        TARGET_SIZE_def Let_def resized_def gray_def)
  have gray: "spec_to_grayscale L img = Inr gray"
    using False by (simp add: spec_to_grayscale_def convert_L_def gray_def)
  have "\<not> truncated gray"
    using False by (simp add: gray_def)
  then have "spec_resize L gray = Inr resized"
    by (simp add: spec_resize_def resize_def resized_def)
  with gray shape
  have spec: "spec_normalize L img = Inr (Array [Array [true_divide (asarray resized) 255]])"
    by (simp add: spec_normalize_def spec_rescale_def spec_reshape_def)
  show ?thesis
    using code spec by (simp add: unsqueeze0_def)
qed


lemma demo_decode_1x1:
  "decode_base64_frame demo_libs ''UDUKMSAxCjI1NQqA'' =
     Inr \<lparr>mode = ''L'', width = 1, height = 1, truncated = False, planes = [\<lambda>x y. 128]\<rparr>"
  by (simp add: decode_base64_frame_def demo_libs_def demo_b64decode_def demo_image_open_def)

lemma demo_decode_rgb:
  "decode_base64_frame demo_libs ''UDYKMiAxCjI1NQr/AAAAAP8='' =
     Inr \<lparr>mode = ''RGB'', width = 2, height = 1, truncated = False,
          planes = [\<lambda>x y. if x = 0 then 255 else 0, \<lambda>x y. 0, \<lambda>x y. if x = 0 then 0 else 255]\<rparr>"
  by (simp add: decode_base64_frame_def demo_libs_def demo_b64decode_def demo_image_open_def)

text \<open>The 1x1 gray pixel: the upsampling path.\<close>

theorem preprocess_frame_shape_range_witness:
  "\<exists>t. preprocess_frame demo_libs default_settings ''UDUKMSAxCjI1NQqA'' = Inr t
       \<and> has_shape t [1, 1, 48, 48] \<and> list_all (\<lambda>v. 0 \<le> v \<and> v \<le> 1) (elements t)"
  using preprocess_frame_shape_range [OF demo_decode_1x1, of default_settings]
  by (simp add: default_settings_def list_all_iff)

text \<open>The 2x1 RGB image: the conversion path.\<close>

theorem preprocess_frame_equals_pipeline_witness:
  "preprocess_frame demo_libs default_settings ''UDYKMiAxCjI1NQr/AAAAAP8='' =
     spec_normalize demo_libs
       \<lparr>mode = ''RGB'', width = 2, height = 1, truncated = False,
        planes = [\<lambda>x y. if x = 0 then 255 else 0, \<lambda>x y. 0, \<lambda>x y. if x = 0 then 0 else 255]\<rparr>"
  using preprocess_frame_equals_pipeline [OF demo_decode_rgb, of default_settings]
  by (simp add: default_settings_def)

text \<open>
  C6 as the code has it: \<open>decode_base64_frame\<close> fails exactly when the base64 decoding
  fails or the codec cannot parse the decoded bytes, and in both cases with the one
  \<open>ValueError\<close> of message "Invalid base64 image format".
\<close>

theorem decode_base64_frame_single_error:
  "(decode_base64_frame L frame = Inl e \<longleftrightarrow>
      e = ValueError ''Invalid base64 image format''
      \<and> (b64decode L frame = None
         \<or> (\<exists>image_data. b64decode L frame = Some image_data \<and> image_open L image_data = None)))"
  by (auto simp: decode_base64_frame_def split: option.splits)

theorem decode_base64_frame_single_error_witness:
  "decode_base64_frame demo_libs ''a'' = Inl (ValueError ''Invalid base64 image format'')
   \<and> b64decode demo_libs ''a'' = None
   \<and> decode_base64_frame demo_libs ''AAAA'' = Inl (ValueError ''Invalid base64 image format'')
   \<and> b64decode demo_libs ''AAAA'' = Some [0, 0, 0]"
  using decode_base64_frame_single_error [of demo_libs "''a''" "ValueError ''Invalid base64 image format''"]
    decode_base64_frame_single_error [of demo_libs "''AAAA''" "ValueError ''Invalid base64 image format''"]
  by (simp add: demo_libs_def demo_b64decode_def demo_image_open_def)

text \<open>
  C6 as stated fails: a string that is not base64 and a base64 string of three bytes that
  are no image raise the same error, with the same message.
\<close>

theorem decode_errors_distinct_counterexample:
  "b64decode demo_libs ''a'' = None
   \<and> b64decode demo_libs ''AAAA'' = Some [0, 0, 0]
   \<and> image_open demo_libs [0, 0, 0] = None
   \<and> decode_base64_frame demo_libs ''a'' = Inl (ValueError ''Invalid base64 image format'')
   \<and> decode_base64_frame demo_libs ''AAAA'' = Inl (ValueError ''Invalid base64 image format'')"
  by (simp add: decode_base64_frame_def demo_libs_def demo_b64decode_def demo_image_open_def)

section \<open>The result postprocessor\<close>

lemma replaces_Finite [simp]: "replaces (Finite x) (Finite v) = (v < x)"
  by (simp add: replaces_def fless_def)














text \<open>Run on the seven equal logits, the model selects the first label.\<close>

lemma postprocess_predictions_all_tied:
  "postprocess_predictions ideal_torch
     [[Finite 0, Finite 0, Finite 0, Finite 0, Finite 0, Finite 0, Finite 0]] =
     Inr \<lparr>emotion = ''Angry'', confidence = Finite (1 / 7),
          all_emotions = [(''Angry'', Finite (1 / 7)), (''Disgust'', Finite (1 / 7)),
            (''Fear'', Finite (1 / 7)), (''Happy'', Finite (1 / 7)),
            (''Neutral'', Finite (1 / 7)), (''Sad'', Finite (1 / 7)),
            (''Surprise'', Finite (1 / 7))]\<rparr>"
  by (simp add: postprocess_predictions_def softmax_def torch_max_def ideal_torch_def
      exact_softmax_def EMOTIONS_def Let_def
      upt_rec [of _ "numeral _"] upt_rec [of _ "Suc _"])

section \<open>The history store: empty histories\<close>

lemma slice_from_Nil: "slice_from [] k = []"
  by (simp add: slice_from_def)

lemma get_predictions_no_entries:
  assumes "predictions_store st uid = None \<or> predictions_store st uid = Some []"
  shows "get_predictions E st uid limit hours now = []"
  using assms
  by (auto simp: get_predictions_def get_predictions_body_def slice_from_Nil
      split: sum.splits option.splits)

text \<open>
  C9. For a user the store has never seen, or whose list is empty, and for any window
  (also one so large that computing the cutoff overflows), \<open>get_emotion_stats\<close> returns
  the zeroed statistics: total 0, no counts, no dominant emotion, average confidence 0.
  It returns a value on every path (its handler catches every exception) and leaves the
  state as it was.
\<close>

theorem get_emotion_stats_no_entries:
  assumes "predictions_store st uid = None \<or> predictions_store st uid = Some []"
  shows "get_emotion_stats E st uid hours now =
           (\<lparr>user_id = uid, total = 0, emotion_counts = [], dominant_emotion = None,
             average_confidence = 0, by_emotion = None\<rparr>, st)"
  using get_predictions_no_entries [OF assms]
  by (simp add: get_emotion_stats_def zero_stats_def)

theorem get_emotion_stats_no_entries_witness:
  "predictions_store empty_state ''nobody'' = None
   \<and> get_emotion_stats demo_env empty_state ''nobody'' 24 (demo_time 12 35 0) =
       (\<lparr>user_id = ''nobody'', total = 0, emotion_counts = [], dominant_emotion = None,
         average_confidence = 0, by_emotion = None\<rparr>, empty_state)"
  using get_emotion_stats_no_entries [of empty_state "''nobody''" demo_env 24 "demo_time 12 35 0"]
  by (simp add: empty_state_def)

section \<open>The history store: append, then query\<close>

text \<open>
  C3 fails on the code for every prediction whose timestamp ends in \<open>Z\<close>, the form the
  inference service and the repository's own test produce. The query rewrites \<open>Z\<close> to
  \<open>+00:00\<close>, the parser returns an aware datetime, the comparison with the naive cutoff
  raises \<open>TypeError\<close>, the inner handler does not catch it, and the outer handler returns
  the empty list: the entry stored four seconds earlier is not returned.
\<close>

theorem store_then_get_aware_timestamp:
  "get_predictions demo_env
     (store_prediction demo_env empty_state ''user_1''
        (demo_entry ''Happy'' ''2025-10-18T12:34:56Z'') (demo_time 12 35 0))
     ''user_1'' 1 8760 (demo_time 12 35 1) = []"
  by (simp add: get_predictions_def get_predictions_body_def store_prediction_def
      empty_state_def demo_entry_def with_stored_at_def timedelta_hours_def datetime_sub_def
      demo_time_def in_window_def entry_timestamp_def demo_env_def demo_fromisoformat_def
      Let_def)

text \<open>The same call with a timestamp without zone returns the stored entry.\<close>

lemma store_then_get_naive_timestamp:
  "get_predictions demo_env
     (store_prediction demo_env empty_state ''user_1''
        (demo_entry ''Happy'' ''2025-10-18T12:34:56'') (demo_time 12 35 0))
     ''user_1'' 1 8760 (demo_time 12 35 1) =
   [[(''emotion'', PStr ''Happy''), (''confidence'', PNum (9 / 10)),
     (''timestamp'', PStr ''2025-10-18T12:34:56''),
     (''stored_at'', PStr ''2025-10-18T12:35:00Z'')]]"
  by (simp add: get_predictions_def get_predictions_body_def store_prediction_def
      empty_state_def demo_entry_def with_stored_at_def timedelta_hours_def datetime_sub_def
      demo_time_def in_window_def entry_timestamp_def demo_env_def demo_fromisoformat_def
      demo_isoformat_def slice_from_def Let_def)

section \<open>The history store: entries without a usable timestamp\<close>

lemma filter_loop_skip:
  assumes "in_window E c p = Inl e" and "skipped e"
  shows "filter_loop E c acc (xs @ p # ys) = filter_loop E c acc (xs @ ys)"
  using assms by (induction xs arbitrary: acc) (simp_all split: sum.splits)

lemma filter_loop_result:
  "filter_loop E c acc ps = Inr r \<Longrightarrow> r = acc @ filter (\<lambda>p. in_window E c p = Inr True) ps"
proof (induction ps arbitrary: acc)
  case Nil
  then show ?case by simp
next
  case (Cons p ps)
  show ?case
  proof (cases "in_window E c p")
    case (Inl e)
    with Cons.prems have "filter_loop E c acc ps = Inr r"
      by (simp split: if_splits)
    from Cons.IH [OF this] Inl show ?thesis by simp
  next
    case (Inr newer)
    with Cons.prems have "filter_loop E c (if newer then acc @ [p] else acc) ps = Inr r"
      by simp
    from Cons.IH [OF this] Inr show ?thesis by (cases newer) simp_all
  qed
qed

lemma unusable_timestamp_in_window:
  assumes "unusable_timestamp E p"
  shows "\<exists>e. in_window E c p = Inl e \<and> skipped e"
  using assms
  by (auto simp: unusable_timestamp_def in_window_def entry_timestamp_def
      split: option.splits pyval.splits)

lemma set_slice_from: "set (slice_from xs k) \<subseteq> set xs"
  by (auto simp: slice_from_def dest: in_set_dropD)

lemma get_predictions_in_window:
  assumes "q \<in> set (get_predictions E st uid limit hours now)"
  shows "\<exists>c. in_window E c q = Inr True"
proof -
  from assms obtain r where body: "get_predictions_body E st uid limit hours now = Inr r"
      and q: "q \<in> set r"
    by (cases "get_predictions_body E st uid limit hours now") (auto simp: get_predictions_def)
  from body q obtain ps d c filtered where "filter_loop E c [] ps = Inr filtered"
      and "r = slice_from filtered (- limit)"
    by (auto simp: get_predictions_body_def split: option.splits sum.splits)
  then show ?thesis
    using q set_slice_from [of filtered "- limit"] filter_loop_result [of E c "[]" ps filtered]
    by auto
qed

lemma keep_last_1000:
  "(if 1000 < length xs then slice_from xs (- 1000) else xs) = drop (length xs - 1000) xs"
proof -
  have "nat (int (length xs) + - 1000) = length xs - 1000"
    by arith
  then show ?thesis
    by (simp add: slice_from_def)
qed

lemma store_prediction_list:
  assumes "old = (case predictions_store st uid of None \<Rightarrow> [] | Some ps \<Rightarrow> ps)"
  shows "predictions_store (store_prediction E st uid q now) uid =
     Some (drop (Suc (length old) - 1000) (old @ [with_stored_at E now q]))"
  using keep_last_1000 [of "old @ [with_stored_at E now q]"]
  by (simp add: store_prediction_def Let_def assms [symmetric])

text \<open>
  An entry without a timestamp key, or with a timestamp string the parser rejects, is
  passed over by the scan: queries and statistics are those of the list without it.
\<close>

lemma unusable_timestamp_entry_skipped:
  assumes "unusable_timestamp E p" and "predictions_store st uid = Some (xs @ p # ys)"
  shows "get_predictions E st uid limit hours now =
           get_predictions E (st\<lparr>predictions_store := (predictions_store st)(uid \<mapsto> xs @ ys)\<rparr>)
             uid limit hours now
         \<and> p \<notin> set (get_predictions E st uid limit hours now)
         \<and> fst (get_emotion_stats E st uid hours now) =
             fst (get_emotion_stats E
                    (st\<lparr>predictions_store := (predictions_store st)(uid \<mapsto> xs @ ys)\<rparr>)
                    uid hours now)
         \<and> predictions_store (store_prediction E st uid q now) uid =
             Some (drop (Suc (length (xs @ p # ys)) - 1000)
                        (xs @ p # ys @ [with_stored_at E now q]))"
proof -
  let ?st' = "st\<lparr>predictions_store := (predictions_store st)(uid \<mapsto> xs @ ys)\<rparr>"
  have skip: "filter_loop E c [] (xs @ p # ys) = filter_loop E c [] (xs @ ys)" for c
    using unusable_timestamp_in_window [OF assms(1), of c] filter_loop_skip by blast
  have same: "get_predictions E st uid k hours now = get_predictions E ?st' uid k hours now" for k
    by (simp add: get_predictions_def get_predictions_body_def assms(2) skip
        split: sum.splits)
  have absent: "p \<notin> set (get_predictions E st uid limit hours now)"
  proof
    assume "p \<in> set (get_predictions E st uid limit hours now)"
    then obtain c where "in_window E c p = Inr True"
      using get_predictions_in_window by blast
    then show False
      using unusable_timestamp_in_window [OF assms(1), of c] by auto
  qed
  have stats: "fst (get_emotion_stats E st uid hours now) = fst (get_emotion_stats E ?st' uid hours now)"
    by (simp add: get_emotion_stats_def same Let_def split: sum.splits)
  have kept: "predictions_store (store_prediction E st uid q now) uid =
      Some (drop (Suc (length (xs @ p # ys)) - 1000) (xs @ p # ys @ [with_stored_at E now q]))"
    using store_prediction_list [of "xs @ p # ys" st uid E q now] by (simp add: assms(2))
  show ?thesis
    using same absent stats kept by blast
qed


text \<open>
  An entry whose timestamp is no string has no \<^verbatim>\<open>replace\<close>: the \<open>AttributeError\<close> is not
  caught by the inner handler and the outer one returns the empty list, whatever else
  the list holds.
\<close>

lemma filter_loop_abort:
  assumes "in_window E c p = Inl e" and "\<not> skipped e"
  shows "\<exists>e'. filter_loop E c acc (xs @ p # ys) = Inl e'"
  using assms
proof (induction xs arbitrary: acc)
  case Nil
  then show ?case by simp
next
  case (Cons x xs)
  then show ?case
    by (cases "in_window E c x") auto
qed

lemma non_string_timestamp_in_window:
  assumes "non_string_timestamp p"
  shows "in_window E c p = Inl AttributeError"
  using assms
  by (auto simp: non_string_timestamp_def in_window_def entry_timestamp_def
      split: option.splits pyval.splits)

lemma non_string_timestamp_empties_query:
  assumes "non_string_timestamp p" and "predictions_store st uid = Some (xs @ p # ys)"
  shows "get_predictions E st uid limit hours now = []"
proof -
  have "\<exists>e'. filter_loop E c [] (xs @ p # ys) = Inl e'" for c
    using filter_loop_abort [of E c p AttributeError] non_string_timestamp_in_window [OF assms(1)]
    by simp
  then have "filter_loop E c [] (xs @ p # ys) \<noteq> Inr r" for c r
    by (metis sum.distinct(1))
  then have "\<exists>e'. get_predictions_body E st uid limit hours now = Inl e'"
    by (auto simp: get_predictions_body_def assms(2) split: sum.splits)
  then show ?thesis
    by (auto simp: get_predictions_def)
qed

text \<open>
  C10 as the code has it. Let an entry of a user's list have no \<^verbatim>\<open>"timestamp"\<close> key, or a
  timestamp string that the ISO parser rejects. Then a query returns what it would return
  if the entry were not in the list, the entry is in no query result, and the statistics
  are those of the list without it. Let the entry instead have a timestamp that is not a
  string. Then it is not skipped: every query on the list returns the empty list and the
  statistics are the zeroed ones, without an exception reaching the caller. In both cases
  the entry stays in the store: the next \<open>store_prediction\<close> counts it in the length it
  compares with 1000 and keeps it as it keeps any other entry.
\<close>

theorem timestamp_skipped_or_query_emptied:
  assumes "predictions_store st uid = Some (xs @ p # ys)"
  shows "(unusable_timestamp E p \<longrightarrow>
            get_predictions E st uid limit hours now =
              get_predictions E (st\<lparr>predictions_store := (predictions_store st)(uid \<mapsto> xs @ ys)\<rparr>)
                uid limit hours now
            \<and> p \<notin> set (get_predictions E st uid limit hours now)
            \<and> fst (get_emotion_stats E st uid hours now) =
                fst (get_emotion_stats E
                       (st\<lparr>predictions_store := (predictions_store st)(uid \<mapsto> xs @ ys)\<rparr>)
                       uid hours now))
         \<and> (non_string_timestamp p \<longrightarrow>
              get_predictions E st uid limit hours now = []
              \<and> fst (get_emotion_stats E st uid hours now) = zero_stats uid)
         \<and> predictions_store (store_prediction E st uid q now) uid =
             Some (drop (Suc (length (xs @ p # ys)) - 1000)
                        (xs @ p # ys @ [with_stored_at E now q]))"
proof -
  have skip: "unusable_timestamp E p \<longrightarrow>
            get_predictions E st uid limit hours now =
              get_predictions E (st\<lparr>predictions_store := (predictions_store st)(uid \<mapsto> xs @ ys)\<rparr>)
                uid limit hours now
            \<and> p \<notin> set (get_predictions E st uid limit hours now)
            \<and> fst (get_emotion_stats E st uid hours now) =
                fst (get_emotion_stats E
                       (st\<lparr>predictions_store := (predictions_store st)(uid \<mapsto> xs @ ys)\<rparr>)
                       uid hours now)"
    using unusable_timestamp_entry_skipped [OF _ assms, of E limit hours now] by blast
  have abort: "non_string_timestamp p \<longrightarrow>
              get_predictions E st uid limit hours now = []
              \<and> fst (get_emotion_stats E st uid hours now) = zero_stats uid"
    using non_string_timestamp_empties_query [OF _ assms]
    by (simp add: get_emotion_stats_def)
  have kept: "predictions_store (store_prediction E st uid q now) uid =
      Some (drop (Suc (length (xs @ p # ys)) - 1000) (xs @ p # ys @ [with_stored_at E now q]))"
    using store_prediction_list [of "xs @ p # ys" st uid E q now] by (simp add: assms)
  show ?thesis
    using skip abort kept by blast
qed

lemma demo_unusable_entry:
  "unusable_timestamp demo_env (demo_entry ''Sad'' ''yesterday'')"
  by (simp add: unusable_timestamp_def demo_entry_def demo_env_def demo_fromisoformat_def)

lemma demo_query_two_entries:
  "get_predictions demo_env
     \<lparr>predictions_store = [''user_1'' \<mapsto>
         [demo_entry ''Happy'' ''2025-10-18T12:34:56'', demo_entry ''Fear'' ''2025-10-18T12:34:50'']],
      stats_cache = Map.empty\<rparr>
     ''user_1'' 10 24 (demo_time 12 35 0) =
   [demo_entry ''Happy'' ''2025-10-18T12:34:56'', demo_entry ''Fear'' ''2025-10-18T12:34:50'']"
  by (simp add: get_predictions_def get_predictions_body_def
      demo_entry_def timedelta_hours_def datetime_sub_def
      demo_time_def in_window_def entry_timestamp_def demo_env_def demo_fromisoformat_def
      slice_from_def Let_def)

text \<open>
  Between two usable entries, an entry whose timestamp is the string "yesterday" is
  skipped, and one whose timestamp is null empties the query.
\<close>

theorem timestamp_skipped_or_query_emptied_witness:
  "unusable_timestamp demo_env (demo_entry ''Sad'' ''yesterday'')
   \<and> get_predictions demo_env
        \<lparr>predictions_store = [''user_1'' \<mapsto>
            [demo_entry ''Happy'' ''2025-10-18T12:34:56'', demo_entry ''Sad'' ''yesterday'',
             demo_entry ''Fear'' ''2025-10-18T12:34:50'']],
         stats_cache = Map.empty\<rparr>
        ''user_1'' 10 24 (demo_time 12 35 0) =
       [demo_entry ''Happy'' ''2025-10-18T12:34:56'', demo_entry ''Fear'' ''2025-10-18T12:34:50'']
   \<and> non_string_timestamp [(''emotion'', PStr ''Sad''), (''timestamp'', PNone)]
   \<and> get_predictions demo_env
        \<lparr>predictions_store = [''user_1'' \<mapsto>
            [demo_entry ''Happy'' ''2025-10-18T12:34:56'',
             [(''emotion'', PStr ''Sad''), (''timestamp'', PNone)],
             demo_entry ''Fear'' ''2025-10-18T12:34:50'']],
         stats_cache = Map.empty\<rparr>
        ''user_1'' 10 24 (demo_time 12 35 0) = []"
proof -
  have null: "non_string_timestamp [(''emotion'', PStr ''Sad''), (''timestamp'', PNone)]"
    by (simp add: non_string_timestamp_def)
  show ?thesis
    using timestamp_skipped_or_query_emptied
        [of "\<lparr>predictions_store = [''user_1'' \<mapsto>
            [demo_entry ''Happy'' ''2025-10-18T12:34:56'', demo_entry ''Sad'' ''yesterday'',
             demo_entry ''Fear'' ''2025-10-18T12:34:50'']],
         stats_cache = Map.empty\<rparr>" "''user_1''"
        "[demo_entry ''Happy'' ''2025-10-18T12:34:56'']" "demo_entry ''Sad'' ''yesterday''"
        "[demo_entry ''Fear'' ''2025-10-18T12:34:50'']" demo_env 10 24 "demo_time 12 35 0"]
      timestamp_skipped_or_query_emptied
        [of "\<lparr>predictions_store = [''user_1'' \<mapsto>
            [demo_entry ''Happy'' ''2025-10-18T12:34:56'',
             [(''emotion'', PStr ''Sad''), (''timestamp'', PNone)],
             demo_entry ''Fear'' ''2025-10-18T12:34:50'']],
         stats_cache = Map.empty\<rparr>" "''user_1''"
        "[demo_entry ''Happy'' ''2025-10-18T12:34:56'']"
        "[(''emotion'', PStr ''Sad''), (''timestamp'', PNone)]"
        "[demo_entry ''Fear'' ''2025-10-18T12:34:50'']" demo_env 10 24 "demo_time 12 35 0"]
      demo_unusable_entry null demo_query_two_entries
    by simp
qed

text \<open>
  C10 as stated fails for a timestamp that is not a string: the entry with a null
  timestamp is not skipped, for the query on the list with it returns nothing, while the
  query on the list without it returns the usable entry.
\<close>

theorem non_string_timestamp_counterexample:
  "get_predictions demo_env
     \<lparr>predictions_store = [''user_1'' \<mapsto>
         [demo_entry ''Happy'' ''2025-10-18T12:34:56'',
          [(''emotion'', PStr ''Sad''), (''timestamp'', PNone)]]],
      stats_cache = Map.empty\<rparr>
     ''user_1'' 10 24 (demo_time 12 35 0) = []
   \<and> get_predictions demo_env
     \<lparr>predictions_store = [''user_1'' \<mapsto> [demo_entry ''Happy'' ''2025-10-18T12:34:56'']],
      stats_cache = Map.empty\<rparr>
     ''user_1'' 10 24 (demo_time 12 35 0) = [demo_entry ''Happy'' ''2025-10-18T12:34:56'']"
  by (simp add: get_predictions_def get_predictions_body_def
      demo_entry_def timedelta_hours_def datetime_sub_def
      demo_time_def in_window_def entry_timestamp_def demo_env_def demo_fromisoformat_def
      slice_from_def Let_def)


section \<open>The history store: the cap of 1000 entries per user\<close>

lemma store_prediction_other:
  "u \<noteq> uid \<Longrightarrow> predictions_store (store_prediction E st uid q now) u = predictions_store st u"
  by (simp add: store_prediction_def Let_def)

lemma drop_last_append:
  "drop (length (drop (length xs - n) xs @ ys) - n) (drop (length xs - n) xs @ ys) =
   drop (length (xs @ ys) - n) (xs @ ys)"
proof (cases "length xs \<le> n")
  case True
  then show ?thesis by simp
next
  case False
  then have "length xs - (length xs - n) = n" by arith
  moreover have "length ys + (length xs - n) = length xs + length ys - n"
    using False by arith
  moreover have "length xs + length ys - n - length xs = length ys - n"
    by arith
  ultimately show ?thesis
    by (simp add: add.commute)
qed

text \<open>
  After any sequence of calls, a user's list is the last 1000 entries of what the list
  held before followed by that user's stamped predictions in call order; calls for other
  users do not touch it.
\<close>

lemma store_all_list:
  fixes E uid
  defines "mine \<equiv> \<lambda>calls. map (\<lambda>(u, q, now). with_stored_at E now q)
                               (filter (\<lambda>c. fst c = uid) calls)"
  shows "predictions_store (store_all E st calls) uid =
     (if mine calls = [] then predictions_store st uid
      else Some (drop (length ((case predictions_store st uid of None \<Rightarrow> [] | Some ps \<Rightarrow> ps)
                               @ mine calls) - 1000)
                      ((case predictions_store st uid of None \<Rightarrow> [] | Some ps \<Rightarrow> ps)
                        @ mine calls)))"
proof (induction calls arbitrary: st)
  case Nil
  show ?case by (simp add: mine_def)
next
  case (Cons call calls)
  obtain u q now where call: "call = (u, q, now)"
    by (cases call) auto
  let ?old = "case predictions_store st uid of None \<Rightarrow> [] | Some ps \<Rightarrow> ps"
  show ?case
  proof (cases "u = uid")
    case False
    then have "mine (call # calls) = mine calls"
      by (simp add: mine_def call)
    then show ?thesis
      using False Cons.IH [of "store_prediction E st u q now"]
      by (simp add: call store_prediction_other)
  next
    case True
    let ?e = "with_stored_at E now q"
    have mine: "mine (call # calls) = ?e # mine calls"
      using True by (simp add: mine_def call)
    have st1: "predictions_store (store_prediction E st uid q now) uid =
        Some (drop (length (?old @ [?e]) - 1000) (?old @ [?e]))"
      using store_prediction_list [of ?old st uid E q now] by simp
    show ?thesis
    proof (cases "mine calls = []")
      case True
      with Cons.IH [of "store_prediction E st uid q now"] st1 mine \<open>u = uid\<close>
      show ?thesis by (simp add: call)
    next
      case False
      have "predictions_store (store_all E st (call # calls)) uid =
          Some (drop (length (drop (length (?old @ [?e]) - 1000) (?old @ [?e]) @ mine calls) - 1000)
                     (drop (length (?old @ [?e]) - 1000) (?old @ [?e]) @ mine calls))"
        using Cons.IH [of "store_prediction E st uid q now"] st1 False \<open>u = uid\<close>
        by (simp add: call)
      also have "\<dots> = Some (drop (length ((?old @ [?e]) @ mine calls) - 1000)
                               ((?old @ [?e]) @ mine calls))"
        by (simp only: drop_last_append)
      finally show ?thesis
        by (simp add: mine)
    qed
  qed
qed


text \<open>
  C7. From any state and for any sequence of \<open>store_prediction\<close> calls (other users'
  calls interleaved) of which more than 1000 are for one user, that user's list is then
  exactly the user's 1000 most recent stamped predictions, in the order of the calls: the
  older ones, and everything the list held before, are gone. And after a single append
  from any state (also one whose list was longer than 1000) the list has at most 1000
  entries.
\<close>

theorem store_prediction_cap:
  assumes "1000 < length (filter (\<lambda>c. fst c = uid) calls)"
  shows "(\<exists>kept. predictions_store (store_all E st calls) uid = Some kept
            \<and> kept = drop (length (filter (\<lambda>c. fst c = uid) calls) - 1000)
                          (map (\<lambda>(u, q, now). with_stored_at E now q)
                               (filter (\<lambda>c. fst c = uid) calls))
            \<and> length kept = 1000)
         \<and> (\<exists>kept. predictions_store (store_prediction E st uid q now) uid = Some kept
                \<and> length kept \<le> 1000)"
proof -
  let ?old = "case predictions_store st uid of None \<Rightarrow> [] | Some ps \<Rightarrow> ps"
  let ?mine = "map (\<lambda>(u, q, now). with_stored_at E now q) (filter (\<lambda>c. fst c = uid) calls)"
  have len: "length ?mine = length (filter (\<lambda>c. fst c = uid) calls)"
    by simp
  then have ne: "?mine \<noteq> []"
    using assms by auto
  have "predictions_store (store_all E st calls) uid =
      Some (drop (length (?old @ ?mine) - 1000) (?old @ ?mine))"
    using store_all_list [of E st calls uid] ne by simp
  moreover have "drop (length (?old @ ?mine) - 1000) (?old @ ?mine) =
      drop (length ?mine - 1000) ?mine"
    using assms by simp
  moreover have "length (drop (length ?mine - 1000) ?mine) = 1000"
    using assms by simp
  ultimately have many: "\<exists>kept. predictions_store (store_all E st calls) uid = Some kept
      \<and> kept = drop (length (filter (\<lambda>c. fst c = uid) calls) - 1000) ?mine
      \<and> length kept = 1000"
    by (simp only: len) simp
  have one: "\<exists>kept. predictions_store (store_prediction E st uid q now) uid = Some kept
      \<and> length kept \<le> 1000"
    using store_prediction_list [of ?old st uid E q now] by simp
  show ?thesis
    using many one by blast
qed

text \<open>1001 appends to an empty store: entry 0 is evicted, entries 1 to 1000 remain.\<close>

theorem store_prediction_cap_witness:
  "predictions_store
     (store_all demo_env empty_state
        (map (\<lambda>i. (''user_1'', [(''n'', PNum (real i))], demo_time 12 35 0)) [0..<1001]))
     ''user_1'' =
   Some (map (\<lambda>i. with_stored_at demo_env (demo_time 12 35 0) [(''n'', PNum (real i))])
             [1..<1001])"
proof -
  let ?calls = "map (\<lambda>i. (''user_1'', [(''n'', PNum (real i))], demo_time 12 35 0)) [0..<1001]"
  have mine: "filter (\<lambda>c. fst c = ''user_1'') ?calls = ?calls"
    by (simp add: filter_map comp_def)
  have many: "1000 < length (filter (\<lambda>c. fst c = ''user_1'') ?calls)"
    by (simp only: mine) simp
  show ?thesis
    using store_prediction_cap [OF many, of demo_env empty_state]
    by (simp only: mine) (simp add: drop_map comp_def)
qed

section \<open>The history store: statistics\<close>

lemma count_loop_counts:
  "count_loop counts tc ps = Inr (counts', tc') \<Longrightarrow>
     counts' = fold (\<lambda>l c. count_label c l) (map emotion_of ps) counts"
proof (induction ps arbitrary: counts tc)
  case Nil
  then show ?case by simp
next
  case (Cons p ps)
  from Cons.prems obtain c where
    "count_loop (count_label counts (emotion_of p)) (tc + c) ps = Inr (counts', tc')"
    by (auto split: if_splits pyval.splits)
  from Cons.IH [OF this] show ?case by simp
qed

lemma dict_get_count_label:
  "dict_get (count_label counts l) x 0 = dict_get counts x 0 + (if x = l then 1 else 0)"
  by (simp add: count_label_def dict_get_def update_conv')

lemma keys_count_label:
  "map fst (count_label counts l) =
     (if l \<in> set (map fst counts) then map fst counts else map fst counts @ [l])"
  by (simp add: count_label_def update_keys)

lemma distinct_count_label:
  "distinct (map fst counts) \<Longrightarrow> distinct (map fst (count_label counts l))"
  by (simp add: count_label_def distinct_update)

lemma sum_count_label:
  "sum_list (map snd (count_label counts l)) = Suc (sum_list (map snd counts))"
  unfolding count_label_def
  by (induction counts) (auto simp: dict_get_def)

text \<open>
  What the counting loop builds from the labels of the entries, by induction over the
  labels from the left: the keys are distinct, each count is the number of occurrences
  of its label, the counts sum to the number of labels, and the keys stand in the order
  in which the labels were first met.
\<close>

lemma tally_invariants:
  fixes labels :: "pyval list"
  defines "T \<equiv> fold (\<lambda>l c. count_label c l) labels []"
  shows "distinct (map fst T)"
    and "dict_get T x 0 = count_list labels x"
    and "set (map fst T) = set labels"
    and "sum_list (map snd T) = length labels"
    and "map fst T = kp @ d # ks \<Longrightarrow>
           \<exists>lp ls. labels = lp @ d # ls \<and> d \<notin> set lp \<and> set lp \<subseteq> set kp"
  unfolding T_def
proof (induction labels arbitrary: x kp d ks rule: rev_induct)
  case Nil
  {
    case 1 show ?case by simp
  next
    case 2 show ?case by (simp add: dict_get_def)
  next
    case 3 show ?case by simp
  next
    case 4 show ?case by simp
  next
    case 5 then show ?case by simp
  }
next
  case (snoc l labels)
  let ?T = "fold (\<lambda>l c. count_label c l) labels []"
  {
    case 1 show ?case
      using snoc.IH(1) by (simp add: distinct_count_label)
  next
    case 2 show ?case
      using snoc.IH(2) [of x] by (simp add: dict_get_count_label)
  next
    case 3 show ?case
      using snoc.IH(3) by (auto simp: keys_count_label)
  next
    case 4 show ?case
      using snoc.IH(4) by (simp add: sum_count_label)
  next
    case 5
    show ?case
    proof (cases "l \<in> set (map fst ?T)")
      case True
      with 5 have "map fst ?T = kp @ d # ks"
        by (simp add: keys_count_label)
      from snoc.IH(5) [OF this] obtain lp ls
        where "labels = lp @ d # ls" "d \<notin> set lp" "set lp \<subseteq> set kp" by blast
      then show ?thesis
        by (intro exI [of _ lp] exI [of _ "ls @ [l]"]) simp
    next
      case False
      with 5 have split: "map fst ?T @ [l] = kp @ d # ks"
        by (simp add: keys_count_label)
      show ?thesis
      proof (cases ks rule: rev_cases)
        case Nil
        with split have "map fst ?T = kp" and "d = l" by auto
        then show ?thesis
          using False snoc.IH(3) by (intro exI [of _ labels] exI [of _ "[]"]) auto
      next
        case (snoc ks' z)
        with split have "map fst ?T = kp @ d # ks'" by auto
        from snoc.IH(5) [OF this] obtain lp ls
          where "labels = lp @ d # ls" "d \<notin> set lp" "set lp \<subseteq> set kp" by blast
        then show ?thesis
          by (intro exI [of _ lp] exI [of _ "ls @ [l]"]) simp
      qed
    qed
  }
qed


lemma max_by_count_first:
  assumes "max_by_count best xs = r"
    and "\<forall>x\<in>set pre. snd x < snd best" and "\<forall>x\<in>set mid. snd x \<le> snd best"
  shows "\<exists>pre' post'. pre @ best # mid @ xs = pre' @ r # post'
           \<and> (\<forall>x\<in>set pre'. snd x < snd r) \<and> (\<forall>x\<in>set post'. snd x \<le> snd r)"
  using assms
proof (induction xs arbitrary: best pre mid)
  case Nil
  then show ?case by auto
next
  case (Cons x xs)
  show ?case
  proof (cases "snd best < snd x")
    case True
    have run: "max_by_count x xs = r"
      using Cons.prems(1) True by simp
    have below: "\<forall>y\<in>set (pre @ best # mid). snd y < snd x"
      using Cons.prems(2,3) True by (auto intro: less_trans le_less_trans)
    from Cons.IH [OF run below, of "[]"] show ?thesis by simp
  next
    case False
    have run: "max_by_count best xs = r"
      using Cons.prems(1) False by simp
    have mid: "\<forall>y\<in>set (mid @ [x]). snd y \<le> snd best"
      using Cons.prems(3) False by auto
    from Cons.IH [OF run Cons.prems(2) mid] show ?thesis by simp
  qed
qed

lemma count_of_item:
  assumes "distinct (map fst T)" and "(l, n) \<in> set T"
  shows "dict_get T l 0 = n"
  using assms by (simp add: dict_get_def)

text \<open>
  C8. For every state, user and window, the statistics returned by \<open>get_emotion_stats\<close>
  satisfy: the counts sum to the total; the dominant emotion is none exactly when there
  are no counts, and otherwise it is the first item of \<open>emotion_counts\<close> (in insertion
  order) that no item exceeds, every item before it being strictly smaller. When the
  total is not zero, the total is the number of entries the query matched, each count is
  the number of matched entries with that label, and the dominant label has the greatest
  count while every label met before its first occurrence among the matched entries has a
  strictly smaller count: ties go to the label first encountered.
\<close>

theorem get_emotion_stats_invariant:
  fixes E st uid hours now
  defines "s \<equiv> fst (get_emotion_stats E st uid hours now)"
    and "labels \<equiv> map emotion_of (get_predictions E st uid 10000 hours now)"
  shows "sum_list (map snd (emotion_counts s)) = total s
     \<and> (case dominant_emotion s of
          None \<Rightarrow> emotion_counts s = []
        | Some d \<Rightarrow> \<exists>pre c post. emotion_counts s = pre @ (d, c) # post
                      \<and> (\<forall>x\<in>set pre. snd x < c) \<and> (\<forall>x\<in>set post. snd x \<le> c))
     \<and> (total s \<noteq> 0 \<longrightarrow>
          total s = length labels
          \<and> (\<forall>l. dict_get (emotion_counts s) l 0 = count_list labels l)
          \<and> (\<exists>d pre post. dominant_emotion s = Some d \<and> labels = pre @ d # post \<and> d \<notin> set pre
                \<and> (\<forall>l\<in>set pre. count_list labels l < count_list labels d)
                \<and> (\<forall>l\<in>set labels. count_list labels l \<le> count_list labels d)))"
proof -
  define preds where "preds = get_predictions E st uid 10000 hours now"
  have labels: "labels = map emotion_of preds"
    by (simp add: labels_def preds_def)
  show ?thesis
  proof (cases "preds = [] \<or> (\<exists>e. compute_stats uid preds = Inl e)")
    case True
    then have "s = zero_stats uid"
      by (auto simp: s_def get_emotion_stats_def preds_def [symmetric])
    then show ?thesis
      by (simp add: zero_stats_def)
  next
    case False
    then have ne: "preds \<noteq> []" and "\<exists>s'. compute_stats uid preds = Inr s'"
      by (auto intro: sum.exhaust [of "compute_stats uid preds"])
    then obtain s' where cs: "compute_stats uid preds = Inr s'"
      by blast
    have s: "s = s'"
      using ne cs by (simp add: s_def get_emotion_stats_def preds_def [symmetric])
    from cs obtain T tc where loop: "count_loop [] 0 preds = Inr (T, tc)"
      by (auto simp: compute_stats_def split: sum.splits)
    have T: "T = fold (\<lambda>l c. count_label c l) labels []"
      using count_loop_counts [OF loop] by (simp add: labels)
    have dist: "distinct (map fst T)"
      and cnt: "\<And>x. dict_get T x 0 = count_list labels x"
      and keys: "set (map fst T) = set labels"
      and sum: "sum_list (map snd T) = length labels"
      and order: "\<And>kp d ks. map fst T = kp @ d # ks \<Longrightarrow>
           \<exists>lp ls. labels = lp @ d # ls \<and> d \<notin> set lp \<and> set lp \<subseteq> set kp"
      unfolding T by (rule tally_invariants)+
    have "labels \<noteq> []"
      using ne by (simp add: labels)
    then have "T \<noteq> []"
      using keys by auto
    then obtain item items where items: "T = item # items"
      by (cases T) auto
    obtain d c where best: "max_by_count item items = (d, c)"
      by (cases "max_by_count item items") auto
    have fields: "total s = length preds" "emotion_counts s = T" "dominant_emotion s = Some d"
      using cs loop items best by (auto simp: s compute_stats_def Let_def)
    from max_by_count_first [OF best, of "[]" "[]"] obtain pre post
      where split: "T = pre @ (d, c) # post"
        and pre: "\<forall>x\<in>set pre. snd x < c" and post: "\<forall>x\<in>set post. snd x \<le> c"
      by (auto simp: items)
    have c: "count_list labels d = c"
      using count_of_item [OF dist, of d c] cnt [of d] by (simp add: split)
    from order [of "map fst pre" d "map fst post"] obtain lp ls
      where lab: "labels = lp @ d # ls" and first: "d \<notin> set lp"
        and sub: "set lp \<subseteq> set (map fst pre)"
      by (auto simp: split)
    have before: "count_list labels l < count_list labels d" if "l \<in> set lp" for l
    proof -
      from that sub obtain n where n: "(l, n) \<in> set pre"
        by auto
      then have "dict_get T l 0 = n"
        using count_of_item [OF dist, of l n] by (simp add: split)
      then show ?thesis
        using n pre cnt [of l] c by auto
    qed
    have every: "count_list labels l \<le> count_list labels d" if "l \<in> set labels" for l
    proof -
      from that keys have "l \<in> fst ` set T"
        by simp
      then obtain n where n: "(l, n) \<in> set T"
        by force
      then have "dict_get T l 0 = n"
        using count_of_item [OF dist, of l n] by simp
      moreover have "n \<le> c"
        using n pre post by (auto simp: split intro: less_imp_le)
      ultimately show ?thesis
        using cnt [of l] c by simp
    qed
    have part1: "sum_list (map snd (emotion_counts s)) = total s"
      using sum by (simp add: fields labels)
    have part2: "\<exists>pre c post. emotion_counts s = pre @ (d, c) # post
        \<and> (\<forall>x\<in>set pre. snd x < c) \<and> (\<forall>x\<in>set post. snd x \<le> c)"
      using split pre post by (auto simp: fields)
    have part3: "total s = length labels \<and> (\<forall>l. dict_get (emotion_counts s) l 0 = count_list labels l)"
      using cnt by (simp add: fields labels)
    have part4: "\<exists>d pre post. dominant_emotion s = Some d \<and> labels = pre @ d # post \<and> d \<notin> set pre
        \<and> (\<forall>l\<in>set pre. count_list labels l < count_list labels d)
        \<and> (\<forall>l\<in>set labels. count_list labels l \<le> count_list labels d)"
      using lab first before every fields(3) by blast
    show ?thesis
      using part1 part2 part3 part4 by (simp add: fields(3))
  qed
qed


lemma demo_history_query:
  "get_predictions demo_env demo_history ''user_1'' 10000 24 (demo_time 12 35 0) =
     [demo_entry ''Sad'' ''2025-10-18T12:34:50'', demo_entry ''Happy'' ''2025-10-18T12:34:56'',
      demo_entry ''Happy'' ''2025-10-18T12:34:50'', demo_entry ''Sad'' ''2025-10-18T12:34:56'']"
  by (simp add: get_predictions_def get_predictions_body_def demo_history_def
      demo_entry_def timedelta_hours_def datetime_sub_def
      demo_time_def in_window_def entry_timestamp_def demo_env_def demo_fromisoformat_def
      slice_from_def Let_def)

lemma round4_demo: "round4 (9 / 10) = 9 / 10"
  by (simp add: round4_def round_half_even_def Let_def)

lemma demo_history_stats:
  "fst (get_emotion_stats demo_env demo_history ''user_1'' 24 (demo_time 12 35 0)) =
     \<lparr>user_id = ''user_1'', total = 4,
      emotion_counts = [(PStr ''Sad'', 2), (PStr ''Happy'', 2)],
      dominant_emotion = Some (PStr ''Sad''), average_confidence = 9 / 10,
      by_emotion = Some [(PStr ''Sad'', 2), (PStr ''Happy'', 2)]\<rparr>"
  by (simp add: get_emotion_stats_def demo_history_query compute_stats_def
      demo_entry_def emotion_of_def count_label_def dict_get_def round4_demo Let_def)

text \<open>Sad, Happy, Happy, Sad: both counts are 2 and \<open>Sad\<close>, met first, is dominant.\<close>

theorem get_emotion_stats_invariant_witness:
  "total (fst (get_emotion_stats demo_env demo_history ''user_1'' 24 (demo_time 12 35 0))) = 4
   \<and> sum_list (map snd (emotion_counts
          (fst (get_emotion_stats demo_env demo_history ''user_1'' 24 (demo_time 12 35 0))))) =
       total (fst (get_emotion_stats demo_env demo_history ''user_1'' 24 (demo_time 12 35 0)))
   \<and> dominant_emotion
        (fst (get_emotion_stats demo_env demo_history ''user_1'' 24 (demo_time 12 35 0))) =
       Some (PStr ''Sad'')"
  using get_emotion_stats_invariant [of demo_env demo_history "''user_1''" 24 "demo_time 12 35 0"]
  by (simp add: demo_history_stats)

section \<open>The history store: where append, then query, holds\<close>

lemma in_window_with_stored_at:
  "in_window E c (with_stored_at E now q) = in_window E c q"
  by (simp add: in_window_def entry_timestamp_def with_stored_at_def update_conv')

lemma filter_loop_no_abort:
  assumes "\<forall>p\<in>set ps. \<forall>e. in_window E c p = Inl e \<longrightarrow> skipped e"
  shows "filter_loop E c acc ps = Inr (acc @ filter (\<lambda>p. in_window E c p = Inr True) ps)"
  using assms
proof (induction ps arbitrary: acc)
  case Nil
  show ?case by simp
next
  case (Cons p ps)
  then show ?case
    by (cases "in_window E c p") auto
qed

lemma slice_from_last:
  "xs \<noteq> [] \<Longrightarrow> slice_from xs (- 1) = [last xs]"
proof -
  assume ne: "xs \<noteq> []"
  then have "nat (int (length xs) + - 1) = length xs - 1"
    by arith
  moreover have "drop (length xs - 1) xs = [last xs]"
    using ne by (cases xs rule: rev_cases) auto
  ultimately show ?thesis
    by (simp add: slice_from_def)
qed

text \<open>
  Where the window fits the datetime range, the appended prediction has a zone-less
  timestamp newer than the cutoff, and no entry already in the list aborts the scan
  (none has a timestamp with a zone or one that is no string), the query with limit 1
  returns exactly the entry just appended, with its \<open>stored_at\<close> stamp.
\<close>

lemma store_then_get_in_window:
  assumes old: "old = (case predictions_store st uid of None \<Rightarrow> [] | Some ps \<Rightarrow> ps)"
    and delta: "timedelta_hours hours = Inr delta"
    and cutoff: "datetime_sub now' delta = Inr c"
    and newer: "in_window E c q = Inr True"
    and rest: "\<forall>p\<in>set old. \<forall>e. in_window E c p = Inl e \<longrightarrow> skipped e"
  shows "get_predictions E (store_prediction E st uid q now) uid 1 hours now' =
           [with_stored_at E now q]"
proof -
  let ?e = "with_stored_at E now q"
  let ?kept = "drop (Suc (length old) - 1000) (old @ [?e])"
  have stored: "predictions_store (store_prediction E st uid q now) uid = Some ?kept"
    by (rule store_prediction_list [OF old])
  have e: "in_window E c ?e = Inr True"
    using newer by (simp add: in_window_with_stored_at)
  have kept: "?kept = drop (Suc (length old) - 1000) old @ [?e]"
    by simp
  have "\<forall>p\<in>set ?kept. \<forall>e. in_window E c p = Inl e \<longrightarrow> skipped e"
    using rest e by (auto dest: in_set_dropD)
  then have "filter_loop E c [] ?kept = Inr (filter (\<lambda>p. in_window E c p = Inr True) ?kept)"
    using filter_loop_no_abort [of ?kept E c "[]"] by simp
  moreover have "filter (\<lambda>p. in_window E c p = Inr True) ?kept =
      filter (\<lambda>p. in_window E c p = Inr True) (drop (Suc (length old) - 1000) old) @ [?e]"
    using e by (simp only: kept filter_append) simp
  ultimately have "get_predictions_body E (store_prediction E st uid q now) uid 1 hours now' =
      Inr (slice_from (filter (\<lambda>p. in_window E c p = Inr True)
                         (drop (Suc (length old) - 1000) old) @ [?e]) (- 1))"
    by (simp add: get_predictions_body_def stored delta cutoff)
  then show ?thesis
    by (simp add: get_predictions_def slice_from_last)
qed

end
